theory Spec2Isabelle
  imports Main
begin

section \<open>Package localcopy: a local copy of a resource served over HTTP\<close>

text \<open>
  The package (\<^verbatim>\<open>localcopy.go\<close>) has five exported functions: \<^verbatim>\<open>LoadLocal\<close>,
  \<^verbatim>\<open>LoadRemote\<close>, \<^verbatim>\<open>Download\<close>, \<^verbatim>\<open>NeedsUpdate\<close> and \<^verbatim>\<open>Update\<close>. Each one is a
  short sequence of calls into \<^verbatim>\<open>net/http\<close>, \<^verbatim>\<open>os\<close>, \<^verbatim>\<open>io\<close> and \<^verbatim>\<open>time\<close>. The
  embedding makes the world those calls act on explicit: every function takes a
  \<open>world\<close> and returns its Go result together with the world it leaves behind.
\<close>

subsection \<open>Values of the Go program\<close>

text \<open>
  A \<^verbatim>\<open>[]byte\<close> is a list of 8-bit characters. A \<^verbatim>\<open>time.Time\<close> is an instant, counted
  in nanoseconds; \<^verbatim>\<open>After\<close> compares instants strictly.
\<close>

type_synonym bytes = string
type_synonym time = int

definition time_After :: "time \<Rightarrow> time \<Rightarrow> bool" where
  "time_After t u = (u < t)"

text \<open>
  A Go \<^verbatim>\<open>error\<close>. \<open>NotExist\<close> is an error of the operating system for which
  \<^verbatim>\<open>os.IsNotExist\<close> holds; \<open>Fault\<close> is any other error that \<^verbatim>\<open>net/http\<close>, \<^verbatim>\<open>os\<close>,
  \<^verbatim>\<open>io\<close>, \<^verbatim>\<open>time\<close> or a parsing function hands out; \<open>Errorf\<close> is an error built by
  \<^verbatim>\<open>fmt.Errorf\<close>, which holds nothing but the formatted message. Each carries the
  text that \<^verbatim>\<open>Error()\<close> returns.
\<close>

datatype error = NotExist string | Fault string | Errorf string

fun errString :: "error \<Rightarrow> string" where
  "errString (NotExist m) = m"
| "errString (Fault m) = m"
| "errString (Errorf m) = m"

fun os_IsNotExist :: "error \<Rightarrow> bool" where
  "os_IsNotExist (NotExist m) = True"
| "os_IsNotExist (Fault m) = False"
| "os_IsNotExist (Errorf m) = False"

text \<open>
  \<^verbatim>\<open>fmt.Errorf(ctx + ": %v", err)\<close>: the context, a colon and the cause's message.
\<close>

definition fmt_Errorf :: "string \<Rightarrow> error \<Rightarrow> error" where
  "fmt_Errorf ctx err = Errorf (ctx @ '': '' @ errString err)"

text \<open>
  An \<^verbatim>\<open>io.Reader\<close>: the bytes it delivers, and how it ends (\<open>None\<close> is \<^verbatim>\<open>io.EOF\<close>,
  \<open>Some e\<close> a read error after the bytes).
\<close>

record stream =
  sdata :: bytes
  serr :: "error option"

text \<open>
  \<^verbatim>\<open>type ReadFunc func(r io.Reader) (interface{}, error)\<close>. A Go function returns both
  components; \<^verbatim>\<open>nil\<close> is \<open>None\<close> in either. A parsing function is taken to be a
  function of the reader it is given: it touches neither the files nor the network.
\<close>

type_synonym 'v ReadFunc = "stream \<Rightarrow> 'v option \<times> error option"

text \<open>A file of the local file system, and an HTTP response (\<^verbatim>\<open>Header\<close> is a
  \<^verbatim>\<open>map[string][]string\<close>).\<close>

record localFile =
  content :: bytes
  modTime :: time

record response =
  header :: "string \<rightharpoonup> string list"
  body :: stream

definition httpTimeFormat :: string where
  "httpTimeFormat = ''Mon, 02 Jan 2006 15:04:05 MST''"

definition httpLastModified :: string where
  "httpLastModified = ''Last-Modified''"

subsection \<open>The world\<close>

text \<open>
  What the program does to its surroundings is logged as a list of events, in the order
  of the calls.
\<close>

datatype event =
    EvHead string
  | EvGet string
  | EvOpen string
  | EvStat string
  | EvMkdirAll string
  | EvCreate string
  | EvCopy string nat

text \<open>
  The world holds the state the program changes (\<open>files\<close>, \<open>trace\<close>), the clock that
  stamps written files, and what the surroundings answer: the server's responses to GET
  and HEAD, the failures of the file system calls, and the two library functions
  \<^verbatim>\<open>time.Parse\<close> and \<^verbatim>\<open>filepath.Dir\<close>, which are not part of the package. Directories
  are not tracked: whether \<^verbatim>\<open>os.Create\<close> succeeds is the answer of \<open>createFault\<close>.
  The deferred \<^verbatim>\<open>Close\<close> calls of the package have no effect on its results and are left
  out.
\<close>

record world =
  files :: "string \<rightharpoonup> localFile"
  clock :: time
  trace :: "event list"
  httpGet :: "string \<Rightarrow> error + response"
  httpHead :: "string \<Rightarrow> error + response"
  openFault :: "string \<rightharpoonup> error"
  statFault :: "string \<rightharpoonup> error"
  mkdirFault :: "string \<rightharpoonup> error"
  createFault :: "string \<rightharpoonup> error"
  writeFault :: "string \<rightharpoonup> nat \<times> error"
  time_Parse :: "string \<Rightarrow> string \<Rightarrow> error + time"
  filepath_Dir :: "string \<Rightarrow> string"

definition logEvent :: "event \<Rightarrow> world \<Rightarrow> world" where
  "logEvent ev w = w\<lparr>trace := trace w @ [ev]\<rparr>"

subsection \<open>The library calls\<close>

definition http_Get :: "string \<Rightarrow> world \<Rightarrow> (error + response) \<times> world" where
  "http_Get url w = (httpGet w url, logEvent (EvGet url) w)"

definition http_Head :: "string \<Rightarrow> world \<Rightarrow> (error + response) \<times> world" where
  "http_Head url w = (httpHead w url, logEvent (EvHead url) w)"

text \<open>\<^verbatim>\<open>os.Open\<close> followed by \<^verbatim>\<open>bufio.NewReader\<close>: the reader over the file's bytes.\<close>

definition os_Open :: "string \<Rightarrow> world \<Rightarrow> (error + stream) \<times> world" where
  "os_Open name w =
     (case openFault w name of
        Some err \<Rightarrow> (Inl err, logEvent (EvOpen name) w)
      | None \<Rightarrow>
          (case files w name of
             None \<Rightarrow>
               (Inl (NotExist (''open '' @ name @ '': no such file or directory'')),
                logEvent (EvOpen name) w)
           | Some f \<Rightarrow>
               (Inr \<lparr>sdata = content f, serr = None\<rparr>, logEvent (EvOpen name) w)))"

definition os_Stat :: "string \<Rightarrow> world \<Rightarrow> (error + localFile) \<times> world" where
  "os_Stat name w =
     (case statFault w name of
        Some err \<Rightarrow> (Inl err, logEvent (EvStat name) w)
      | None \<Rightarrow>
          (case files w name of
             None \<Rightarrow>
               (Inl (NotExist (''stat '' @ name @ '': no such file or directory'')),
                logEvent (EvStat name) w)
           | Some f \<Rightarrow> (Inr f, logEvent (EvStat name) w)))"

definition os_MkdirAll :: "string \<Rightarrow> world \<Rightarrow> error option \<times> world" where
  "os_MkdirAll dir w = (mkdirFault w dir, logEvent (EvMkdirAll dir) w)"

text \<open>\<^verbatim>\<open>os.Create\<close> creates the file or truncates it; the file is stamped with the clock.\<close>

definition os_Create :: "string \<Rightarrow> world \<Rightarrow> error option \<times> world" where
  "os_Create name w =
     (case createFault w name of
        Some err \<Rightarrow> (Some err, logEvent (EvCreate name) w)
      | None \<Rightarrow>
          (None,
           logEvent (EvCreate name)
             (w\<lparr>files := (files w)(name \<mapsto> \<lparr>content = [], modTime = clock w\<rparr>)\<rparr>)))"

text \<open>
  \<^verbatim>\<open>io.Copy\<close> into the file just created. A write fault \<open>(n, e)\<close> lets \<open>n\<close> bytes
  through and fails with \<open>e\<close> on the next; otherwise all bytes of the stream are
  written and the result is the stream's own read error, if any. The bytes written stay
  in the file in either case.
\<close>

definition io_Copy :: "string \<Rightarrow> stream \<Rightarrow> world \<Rightarrow> error option \<times> world" where
  "io_Copy name src w =
     (let (written, err) =
            (case writeFault w name of
               None \<Rightarrow> (sdata src, serr src)
             | Some (n, e) \<Rightarrow>
                 if n < length (sdata src) then (take n (sdata src), Some e)
                 else (sdata src, serr src))
      in (err,
          logEvent (EvCopy name (length written))
            (w\<lparr>files := (files w)(name \<mapsto> \<lparr>content = written, modTime = clock w\<rparr>)\<rparr>)))"

subsection \<open>The package's functions\<close>

definition LoadLocal ::
  "string \<Rightarrow> 'v ReadFunc \<Rightarrow> world \<Rightarrow> ('v option \<times> error option) \<times> world" where
  "LoadLocal localFilename read w =
     (case os_Open localFilename w of
        (Inl err, w1) \<Rightarrow> ((None, Some err), w1)
      | (Inr inp, w1) \<Rightarrow>
          (case read inp of
             (val, Some err) \<Rightarrow> ((None, Some err), w1)
           | (val, None) \<Rightarrow> ((val, None), w1)))"

definition LoadRemote ::
  "string \<Rightarrow> 'v ReadFunc \<Rightarrow> world \<Rightarrow> ('v option \<times> error option) \<times> world" where
  "LoadRemote remoteURL read w =
     (case http_Get remoteURL w of
        (Inl err, w1) \<Rightarrow> ((None, Some err), w1)
      | (Inr resp, w1) \<Rightarrow>
          (case read (body resp) of
             (val, Some err) \<Rightarrow> ((None, Some err), w1)
           | (val, None) \<Rightarrow> ((val, None), w1)))"

definition Download ::
  "string \<Rightarrow> string \<Rightarrow> 'v ReadFunc \<Rightarrow> world \<Rightarrow> error option \<times> world" where
  "Download remoteURL localFilename read w =
     (case http_Get remoteURL w of
        (Inl err, w1) \<Rightarrow> (Some (fmt_Errorf ''failed to download resource'' err), w1)
      | (Inr resp, w1) \<Rightarrow>
          (case os_MkdirAll (filepath_Dir w1 localFilename) w1 of
             (ignored, w2) \<Rightarrow>
               (case os_Create localFilename w2 of
                  (Some err, w3) \<Rightarrow> (Some (fmt_Errorf ''failed to open local file'' err), w3)
                | (None, w3) \<Rightarrow>
                    (case io_Copy localFilename (body resp) w3 of
                       (Some err, w4) \<Rightarrow>
                         (Some (fmt_Errorf ''failed to store resource locally'' err), w4)
                     | (None, w4) \<Rightarrow> (None, w4)))))"

definition NeedsUpdate :: "string \<Rightarrow> string \<Rightarrow> world \<Rightarrow> (bool \<times> error option) \<times> world" where
  "NeedsUpdate remoteURL localFilename w =
     (case http_Head remoteURL w of
        (Inl err, w1) \<Rightarrow> ((False, Some err), w1)
      | (Inr resp, w1) \<Rightarrow>
          (case header resp httpLastModified of
             None \<Rightarrow>
               ((False, Some (Errorf ''response does not contain a Last-Modified header'')), w1)
           | Some [] \<Rightarrow> ((False, Some (Errorf ''Last-Modified header is empty'')), w1)
           | Some (first # others) \<Rightarrow>
               (case time_Parse w1 httpTimeFormat first of
                  Inl err \<Rightarrow>
                    ((False, Some (fmt_Errorf ''cannot parse Last-Modified header'' err)), w1)
                | Inr lastModified \<Rightarrow>
                    (case os_Stat localFilename w1 of
                       (Inl err, w2) \<Rightarrow>
                         if os_IsNotExist err then ((True, None), w2)
                         else ((False, Some err), w2)
                     | (Inr localFileInfo, w2) \<Rightarrow>
                         ((time_After lastModified (modTime localFileInfo), None), w2)))))"

definition Update ::
  "string \<Rightarrow> string \<Rightarrow> 'v ReadFunc \<Rightarrow> world \<Rightarrow> (bool \<times> error option) \<times> world" where
  "Update remoteURL localFilename read w =
     (case NeedsUpdate remoteURL localFilename w of
        ((needsUpdate, Some err), w1) \<Rightarrow> ((False, Some err), w1)
      | ((needsUpdate, None), w1) \<Rightarrow>
          if \<not> needsUpdate then ((False, None), w1)
          else (case Download remoteURL localFilename read w1 of
                  (err, w2) \<Rightarrow> ((True, err), w2)))"

subsection \<open>Reading the trace\<close>

text \<open>
  The events an operation added, and the requests among them. A download is a GET
  request: \<^verbatim>\<open>Download\<close> is the only function that follows one with a write.
\<close>

definition newEvents :: "world \<Rightarrow> world \<Rightarrow> event list" where
  "newEvents w w' = drop (length (trace w)) (trace w')"

fun isGet :: "event \<Rightarrow> bool" where
  "isGet (EvGet url) = True"
| "isGet (EvHead url) = False"
| "isGet (EvOpen name) = False"
| "isGet (EvStat name) = False"
| "isGet (EvMkdirAll dir) = False"
| "isGet (EvCreate name) = False"
| "isGet (EvCopy name n) = False"

fun isHead :: "event \<Rightarrow> bool" where
  "isHead (EvHead url) = True"
| "isHead (EvGet url) = False"
| "isHead (EvOpen name) = False"
| "isHead (EvStat name) = False"
| "isHead (EvMkdirAll dir) = False"
| "isHead (EvCreate name) = False"
| "isHead (EvCopy name n) = False"

definition getCount :: "event list \<Rightarrow> nat" where
  "getCount evs = length (filter isGet evs)"

definition headCount :: "event list \<Rightarrow> nat" where
  "headCount evs = length (filter isHead evs)"

subsection \<open>A test world\<close>

text \<open>
  The setting of \<^verbatim>\<open>localcopy_test.go\<close>: one server that answers every request for
  \<open>testURL\<close> with the body \<open>testBody\<close> and, when \<open>lastModified\<close> is given, with a
  \<^verbatim>\<open>Last-Modified\<close> header of these values; any other URL is refused. Nothing in the
  file system fails. The local copy, when there is one, was modified at \<open>testTime\<close>
  (nanoseconds since 1970); \<open>testParse\<close> stands for \<^verbatim>\<open>time.Parse\<close> on three dates:
  ten minutes before \<open>testTime\<close>, \<open>testTime\<close> itself, and ten minutes after.
\<close>

definition testURL :: string where
  "testURL = ''http://127.0.0.1:8080/test.txt''"

definition testFilename :: string where
  "testFilename = ''/tmp/localcopy/test.txt''"

definition testBody :: bytes where
  "testBody = ''first line of the test data''"

definition testTime :: time where
  "testTime = 1136214245000000000"

definition dateBefore :: string where
  "dateBefore = ''Mon, 02 Jan 2006 14:54:05 GMT''"

definition dateEqual :: string where
  "dateEqual = ''Mon, 02 Jan 2006 15:04:05 GMT''"

definition dateAfter :: string where
  "dateAfter = ''Mon, 02 Jan 2006 15:14:05 GMT''"

definition testParse :: "string \<Rightarrow> string \<Rightarrow> error + time" where
  "testParse layout v =
     (if layout = httpTimeFormat \<and> v = dateBefore then Inr (testTime - 600000000000)
      else if layout = httpTimeFormat \<and> v = dateEqual then Inr testTime
      else if layout = httpTimeFormat \<and> v = dateAfter then Inr (testTime + 600000000000)
      else Inl (Fault (''parsing time '' @ v @ '': cannot parse'')))"

definition testServer :: "string list option \<Rightarrow> bytes \<Rightarrow> string \<Rightarrow> error + response" where
  "testServer lastModified payload url =
     (if url = testURL then
        Inr \<lparr>header =
               (case lastModified of
                  None \<Rightarrow> Map.empty
                | Some vs \<Rightarrow> [httpLastModified \<mapsto> vs]),
             body = \<lparr>sdata = payload, serr = None\<rparr>\<rparr>
      else Inl (Fault ''dial tcp: connection refused''))"

definition testWorld :: "time \<Rightarrow> string list option \<Rightarrow> (string \<rightharpoonup> localFile) \<Rightarrow> world" where
  "testWorld now lastModified fs =
     \<lparr>files = fs, clock = now, trace = [],
      httpGet = testServer lastModified testBody,
      httpHead = testServer lastModified [],
      openFault = Map.empty, statFault = Map.empty, mkdirFault = Map.empty,
      createFault = Map.empty, writeFault = Map.empty,
      time_Parse = testParse,
      filepath_Dir = (\<lambda>name. ''/tmp/localcopy'')\<rparr>"

definition testFiles :: "string \<rightharpoonup> localFile" where
  "testFiles = [testFilename \<mapsto> \<lparr>content = ''old data'', modTime = testTime\<rparr>]"

text \<open>The parsing function of the test: the first line of the input.\<close>

definition readTestdata :: "string ReadFunc" where
  "readTestdata r = (Some (takeWhile (\<lambda>c. c \<noteq> CHR 0x0A) (sdata r)), None)"

text \<open>
  A parsing function that fails after it has read something, and returns what it has
  together with its error, as \<^verbatim>\<open>io.ReadAll\<close> does.
\<close>

definition readPartial :: "string ReadFunc" where
  "readPartial r = (Some (take 5 (sdata r)), Some (Fault ''unexpected EOF''))"

text \<open>
  Two worlds for \<^verbatim>\<open>Update\<close>. In \<open>staleWorld\<close> the local copy is older than the remote
  one, and the local clock is past the remote modification time. In \<open>noCopyWorld\<close> there
  is no local copy, and the server's \<^verbatim>\<open>Last-Modified\<close> is ten minutes ahead of the local
  clock; \<open>afterFirstUpdate\<close> and \<open>afterSecondUpdate\<close> are the worlds that one and two
  calls of \<^verbatim>\<open>Update\<close> leave behind there.
\<close>

definition staleWorld :: world where
  "staleWorld = testWorld (testTime + 900000000000) (Some [dateAfter]) testFiles"

definition noCopyWorld :: world where
  "noCopyWorld = testWorld testTime (Some [dateAfter]) Map.empty"

definition afterFirstUpdate :: world where
  "afterFirstUpdate = snd (Update testURL testFilename readTestdata noCopyWorld)"

definition afterSecondUpdate :: world where
  "afterSecondUpdate = snd (Update testURL testFilename readTestdata afterFirstUpdate)"

text \<open>A URL where nothing listens.\<close>

definition deadURL :: string where
  "deadURL = ''http://127.0.0.1:1/test.txt''"

section \<open>Properties\<close>

lemmas prims =
  http_Get_def http_Head_def os_Open_def os_Stat_def os_MkdirAll_def os_Create_def
  io_Copy_def logEvent_def time_After_def

lemmas tests =
  testWorld_def testServer_def testParse_def testURL_def testFilename_def testBody_def
  httpLastModified_def httpTimeFormat_def testTime_def dateBefore_def dateEqual_def
  dateAfter_def testFiles_def

text \<open>
  \<^verbatim>\<open>NeedsUpdate\<close> changes nothing but the trace, and the events it adds are its one
  HEAD request and, at most, the stat of the local file.
\<close>

lemma NeedsUpdate_world:
  "\<exists>evs. snd (NeedsUpdate url p w) = w\<lparr>trace := trace w @ evs\<rparr>
     \<and> getCount evs = 0 \<and> headCount evs = 1"
  by (auto simp: NeedsUpdate_def prims getCount_def headCount_def
      split: sum.splits option.splits list.splits)

subsection \<open>The freshness check compares modification times\<close>

text \<open>
  C1. When the HEAD request succeeds, the first value of its \<^verbatim>\<open>Last-Modified\<close> header
  parses to the time \<open>t\<close>, and the stat of the local file succeeds with the file \<open>f\<close>,
  \<^verbatim>\<open>NeedsUpdate\<close> returns no error, and returns \<open>true\<close> exactly when \<open>t\<close> is strictly
  after the modification time of \<open>f\<close>: it returns \<open>(false, nil)\<close> when \<open>t\<close> is before
  or equal to it.
\<close>

theorem NeedsUpdate_compares:
  assumes "httpHead w url = Inr resp"
    and "header resp httpLastModified = Some (v # vs)"
    and "time_Parse w httpTimeFormat v = Inr t"
    and "statFault w p = None"
    and "files w p = Some f"
  shows "fst (NeedsUpdate url p w) = (modTime f < t, None)"
  using assms by (simp add: NeedsUpdate_def prims)

text \<open>
  The three cases of the package's test: the remote time ten minutes after the local
  one, equal to it, and ten minutes before.
\<close>

theorem NeedsUpdate_compares_witness:
  "fst (NeedsUpdate testURL testFilename (testWorld testTime (Some [dateAfter]) testFiles))
     = (True, None)
   \<and> fst (NeedsUpdate testURL testFilename (testWorld testTime (Some [dateEqual]) testFiles))
     = (False, None)
   \<and> fst (NeedsUpdate testURL testFilename (testWorld testTime (Some [dateBefore]) testFiles))
     = (False, None)"
proof -
  let ?w = "\<lambda>v. testWorld testTime (Some [v]) testFiles"
  let ?r = "\<lambda>v. \<lparr>header = [httpLastModified \<mapsto> [v]], body = \<lparr>sdata = [], serr = None\<rparr>\<rparr>"
  let ?f = "\<lparr>content = ''old data'', modTime = testTime\<rparr>"
  have a: "fst (NeedsUpdate testURL testFilename (?w dateAfter)) = (True, None)"
    using NeedsUpdate_compares [of "?w dateAfter" testURL "?r dateAfter" dateAfter "[]"
        "testTime + 600000000000" testFilename ?f]
    by (simp add: tests)
  have b: "fst (NeedsUpdate testURL testFilename (?w dateEqual)) = (False, None)"
    using NeedsUpdate_compares [of "?w dateEqual" testURL "?r dateEqual" dateEqual "[]"
        testTime testFilename ?f]
    by (simp add: tests)
  have c: "fst (NeedsUpdate testURL testFilename (?w dateBefore)) = (False, None)"
    using NeedsUpdate_compares [of "?w dateBefore" testURL "?r dateBefore" dateBefore "[]"
        "testTime - 600000000000" testFilename ?f]
    by (simp add: tests)
  from a b c show ?thesis by simp
qed

subsection \<open>Update is the freshness check followed by the download\<close>

text \<open>
  C2. Let \<^verbatim>\<open>NeedsUpdate\<close> return \<open>(b, e)\<close> and leave the world \<open>w1\<close>. If \<open>e\<close> is an
  error, \<^verbatim>\<open>Update\<close> returns \<open>(false, e)\<close> and leaves \<open>w1\<close>; if there is no error and
  \<open>b\<close> is false, it returns \<open>(false, nil)\<close> and leaves \<open>w1\<close>: in both cases nothing
  happens after the freshness check, and the freshness check sends no GET request. If
  there is no error and \<open>b\<close> is true, \<^verbatim>\<open>Update\<close> runs \<^verbatim>\<open>Download\<close> on \<open>w1\<close> and returns
  \<open>true\<close> with whatever \<^verbatim>\<open>Download\<close> returns, error or not.
\<close>

theorem Update_composes:
  assumes "NeedsUpdate url p w = ((b, e), w1)"
  shows "(e \<noteq> None \<longrightarrow> Update url p read w = ((False, e), w1))
       \<and> (e = None \<and> \<not> b \<longrightarrow> Update url p read w = ((False, None), w1))
       \<and> (e = None \<and> b \<longrightarrow>
            Update url p read w =
              ((True, fst (Download url p read w1)), snd (Download url p read w1)))
       \<and> getCount (newEvents w w1) = 0"
proof -
  obtain evs where "snd (NeedsUpdate url p w) = w\<lparr>trace := trace w @ evs\<rparr>" "getCount evs = 0"
    using NeedsUpdate_world by blast
  with assms have "getCount (newEvents w w1) = 0" by (simp add: newEvents_def)
  with assms show ?thesis by (auto simp: Update_def split: prod.splits)
qed

text \<open>
  The remote copy is newer than the local one: \<^verbatim>\<open>Update\<close> downloads it, and the local
  file holds the body, stamped with the time of the download.
\<close>

theorem Update_composes_witness:
  "fst (NeedsUpdate testURL testFilename
          (testWorld (testTime + 900000000000) (Some [dateAfter]) testFiles)) = (True, None)
   \<and> fst (Update testURL testFilename readTestdata
          (testWorld (testTime + 900000000000) (Some [dateAfter]) testFiles)) = (True, None)
   \<and> files (snd (Update testURL testFilename readTestdata
          (testWorld (testTime + 900000000000) (Some [dateAfter]) testFiles))) testFilename
     = Some \<lparr>content = testBody, modTime = testTime + 900000000000\<rparr>"
proof -
  let ?w = "testWorld (testTime + 900000000000) (Some [dateAfter]) testFiles"
  let ?w1 = "snd (NeedsUpdate testURL testFilename ?w)"
  have fn: "fst (NeedsUpdate testURL testFilename ?w) = (True, None)"
    by (simp add: NeedsUpdate_def prims tests)
  then have n: "NeedsUpdate testURL testFilename ?w = ((True, None), ?w1)"
    by (simp add: prod_eq_iff)
  have w1: "?w1 = ?w\<lparr>trace := [EvHead testURL, EvStat testFilename]\<rparr>"
    by (simp add: NeedsUpdate_def prims tests)
  have d: "fst (Download testURL testFilename readTestdata ?w1) = None"
    unfolding w1 by (simp add: Download_def prims tests)
  have f: "files (snd (Download testURL testFilename readTestdata ?w1)) testFilename
      = Some \<lparr>content = testBody, modTime = testTime + 900000000000\<rparr>"
    unfolding w1 by (simp add: Download_def prims tests)
  have u: "Update testURL testFilename readTestdata ?w
      = ((True, None), snd (Download testURL testFilename readTestdata ?w1))"
    using Update_composes [OF n, of readTestdata] d by simp
  from fn u f show ?thesis by simp
qed

subsection \<open>The errors of the header check\<close>

text \<open>
  C3. When the HEAD request succeeds, \<^verbatim>\<open>NeedsUpdate\<close> fails with one error when the
  response has no \<^verbatim>\<open>Last-Modified\<close> header, and with another when the header is there
  with no value (an empty list of values); the two errors differ. A header whose value
  is the empty string, which \<^verbatim>\<open>time.Parse\<close> rejects, fails with the date-parse error,
  and that error differs from the missing-header error as well.
\<close>

theorem NeedsUpdate_header_errors:
  assumes "httpHead w url = Inr resp"
  shows "(header resp httpLastModified = None \<longrightarrow>
            fst (NeedsUpdate url p w) =
              (False, Some (Errorf ''response does not contain a Last-Modified header'')))
       \<and> (header resp httpLastModified = Some [] \<longrightarrow>
            fst (NeedsUpdate url p w) = (False, Some (Errorf ''Last-Modified header is empty'')))
       \<and> (header resp httpLastModified = Some ([] # vs)
            \<and> time_Parse w httpTimeFormat [] = Inl perr \<longrightarrow>
            fst (NeedsUpdate url p w) =
              (False, Some (fmt_Errorf ''cannot parse Last-Modified header'' perr)))
       \<and> Errorf ''response does not contain a Last-Modified header''
            \<noteq> Errorf ''Last-Modified header is empty''
       \<and> Errorf ''response does not contain a Last-Modified header''
            \<noteq> fmt_Errorf ''cannot parse Last-Modified header'' perr"
  using assms by (simp add: NeedsUpdate_def prims fmt_Errorf_def)

theorem NeedsUpdate_header_errors_witness:
  "fst (NeedsUpdate testURL testFilename (testWorld testTime None testFiles))
     = (False, Some (Errorf ''response does not contain a Last-Modified header''))
   \<and> fst (NeedsUpdate testURL testFilename (testWorld testTime (Some []) testFiles))
     = (False, Some (Errorf ''Last-Modified header is empty''))"
proof -
  have a: "fst (NeedsUpdate testURL testFilename (testWorld testTime None testFiles))
     = (False, Some (Errorf ''response does not contain a Last-Modified header''))"
    using NeedsUpdate_header_errors [of "testWorld testTime None testFiles" testURL
        "\<lparr>header = Map.empty, body = \<lparr>sdata = [], serr = None\<rparr>\<rparr>" testFilename]
    by (simp add: tests)
  have b: "fst (NeedsUpdate testURL testFilename (testWorld testTime (Some []) testFiles))
     = (False, Some (Errorf ''Last-Modified header is empty''))"
    using NeedsUpdate_header_errors [of "testWorld testTime (Some []) testFiles" testURL
        "\<lparr>header = [httpLastModified \<mapsto> []], body = \<lparr>sdata = [], serr = None\<rparr>\<rparr>"
        testFilename]
    by (simp add: tests)
  from a b show ?thesis by simp
qed

subsection \<open>The stat of the local file\<close>

text \<open>
  C4. When the HEAD response carries a \<^verbatim>\<open>Last-Modified\<close> header whose first value
  parses, \<^verbatim>\<open>NeedsUpdate\<close> on a path that does not exist returns \<open>(true, nil)\<close>, as it
  does for every stat error that \<^verbatim>\<open>os.IsNotExist\<close> accepts; any other stat error is
  returned to the caller, with \<open>false\<close>.
\<close>

theorem NeedsUpdate_stat:
  assumes "httpHead w url = Inr resp"
    and "header resp httpLastModified = Some (v # vs)"
    and "time_Parse w httpTimeFormat v = Inr t"
  shows "(statFault w p = None \<and> files w p = None \<longrightarrow>
            fst (NeedsUpdate url p w) = (True, None))
       \<and> (fst (os_Stat p w) = Inl err \<and> os_IsNotExist err \<longrightarrow>
            fst (NeedsUpdate url p w) = (True, None))
       \<and> (fst (os_Stat p w) = Inl err \<and> \<not> os_IsNotExist err \<longrightarrow>
            fst (NeedsUpdate url p w) = (False, Some err))"
  using assms
  by (auto simp: NeedsUpdate_def prims split: option.splits)

text \<open>No local copy; and a local copy whose stat is refused.\<close>

theorem NeedsUpdate_stat_witness:
  "fst (NeedsUpdate testURL testFilename (testWorld testTime (Some [dateBefore]) Map.empty))
     = (True, None)
   \<and> fst (NeedsUpdate testURL testFilename
        ((testWorld testTime (Some [dateAfter]) testFiles)
           \<lparr>statFault :=
              [testFilename \<mapsto> Fault ''stat /tmp/localcopy/test.txt: permission denied'']\<rparr>))
     = (False, Some (Fault ''stat /tmp/localcopy/test.txt: permission denied''))"
proof -
  let ?r = "\<lambda>v. \<lparr>header = [httpLastModified \<mapsto> [v]], body = \<lparr>sdata = [], serr = None\<rparr>\<rparr>"
  let ?e = "Fault ''stat /tmp/localcopy/test.txt: permission denied''"
  let ?w = "(testWorld testTime (Some [dateAfter]) testFiles)
              \<lparr>statFault := [testFilename \<mapsto> ?e]\<rparr>"
  have a: "fst (NeedsUpdate testURL testFilename
        (testWorld testTime (Some [dateBefore]) Map.empty)) = (True, None)"
    using NeedsUpdate_stat [of "testWorld testTime (Some [dateBefore]) Map.empty" testURL
        "?r dateBefore" dateBefore "[]" "testTime - 600000000000" testFilename]
    by (simp add: tests)
  have b: "fst (NeedsUpdate testURL testFilename ?w) = (False, Some ?e)"
    using NeedsUpdate_stat [of ?w testURL "?r dateAfter" dateAfter "[]"
        "testTime + 600000000000" testFilename ?e]
    by (simp add: tests prims)
  from a b show ?thesis by simp
qed

subsection \<open>Download and its parsing function\<close>

text \<open>
  C5. \<^verbatim>\<open>Download\<close> never calls the parsing function it is given: for any two parsing
  functions (of any result types) and the same URL, path and world, the returned error
  and the world left behind, with the bytes of the destination file, are the same.
\<close>

theorem Download_ignores_read:
  "Download url p read1 w = Download url p read2 w"
  by (simp add: Download_def)

theorem Download_ignores_read_witness:
  "Download testURL testFilename readTestdata (testWorld testTime (Some [dateAfter]) testFiles)
     = Download testURL testFilename readPartial
         (testWorld testTime (Some [dateAfter]) testFiles)"
  using Download_ignores_read [of testURL testFilename readTestdata
      "testWorld testTime (Some [dateAfter]) testFiles" readPartial]
  by simp

subsection \<open>What the load functions return\<close>

text \<open>
  C6, as claimed: once the file is open, or the GET has succeeded, \<^verbatim>\<open>LoadLocal\<close> and
  \<^verbatim>\<open>LoadRemote\<close> return exactly the value and the error of the parsing function. This
  fails for a parsing function that returns a value together with an error: on the local
  copy \<open>old data\<close>, \<open>readPartial\<close> returns the value \<open>old d\<close> and an error, and
  \<^verbatim>\<open>LoadLocal\<close> returns \<open>nil\<close> and the error.
\<close>

theorem Load_passes_through_counterexample:
  "fst (os_Open testFilename (testWorld testTime None testFiles))
     = Inr \<lparr>sdata = ''old data'', serr = None\<rparr>
   \<and> readPartial \<lparr>sdata = ''old data'', serr = None\<rparr>
     = (Some ''old d'', Some (Fault ''unexpected EOF''))
   \<and> fst (LoadLocal testFilename readPartial (testWorld testTime None testFiles))
     = (None, Some (Fault ''unexpected EOF''))"
  by (simp add: LoadLocal_def readPartial_def prims tests)

text \<open>
  C6, amended. Once the file is open (\<^verbatim>\<open>LoadLocal\<close>) or the GET has succeeded
  (\<^verbatim>\<open>LoadRemote\<close>): when the parsing function returns no error, its value is returned
  unchanged, with no error; when it returns an error, that error is returned unchanged,
  and the value returned is \<open>nil\<close>, whatever value the parsing function returned.
\<close>

theorem Load_passes_through:
  "(fst (os_Open p w) = Inr inp \<and> read inp = (val, None) \<longrightarrow>
       fst (LoadLocal p read w) = (val, None))
 \<and> (fst (os_Open p w) = Inr inp \<and> read inp = (val, Some err) \<longrightarrow>
       fst (LoadLocal p read w) = (None, Some err))
 \<and> (httpGet w url = Inr resp \<and> read (body resp) = (val, None) \<longrightarrow>
       fst (LoadRemote url read w) = (val, None))
 \<and> (httpGet w url = Inr resp \<and> read (body resp) = (val, Some err) \<longrightarrow>
       fst (LoadRemote url read w) = (None, Some err))"
  by (auto simp: LoadLocal_def LoadRemote_def http_Get_def split: prod.splits sum.splits)

theorem Load_passes_through_witness:
  "fst (LoadLocal testFilename readTestdata (testWorld testTime None testFiles))
     = (Some ''old data'', None)
   \<and> fst (LoadRemote testURL readTestdata (testWorld testTime None testFiles))
     = (Some testBody, None)
   \<and> fst (LoadRemote testURL readPartial (testWorld testTime None testFiles))
     = (None, Some (Fault ''unexpected EOF''))"
proof -
  let ?w = "testWorld testTime None testFiles"
  let ?inp = "\<lparr>sdata = ''old data'', serr = None\<rparr>"
  let ?resp = "\<lparr>header = Map.empty, body = \<lparr>sdata = testBody, serr = None\<rparr>\<rparr>"
  have a: "fst (LoadLocal testFilename readTestdata ?w) = (Some ''old data'', None)"
    using Load_passes_through [of testFilename ?w ?inp readTestdata "Some ''old data''"]
    by (simp add: readTestdata_def prims tests)
  have b: "fst (LoadRemote testURL readTestdata ?w) = (Some testBody, None)"
    using Load_passes_through [of _ ?w _ readTestdata "Some testBody" _ testURL ?resp]
    by (simp add: readTestdata_def tests)
  have c: "fst (LoadRemote testURL readPartial ?w) = (None, Some (Fault ''unexpected EOF''))"
    using Load_passes_through [of _ ?w _ readPartial "Some (take 5 testBody)"
        "Fault ''unexpected EOF''" testURL ?resp]
    by (simp add: readPartial_def tests)
  from a b c show ?thesis by simp
qed

subsection \<open>What the freshness check leaves alone\<close>

text \<open>
  C7. \<^verbatim>\<open>NeedsUpdate\<close> leaves every file as it was, bytes and modification time;
  \<^verbatim>\<open>Update\<close> does so whenever the freshness check returns an error or \<open>false\<close>; and
  the two load functions write nothing either, so that a file changes only through
  \<^verbatim>\<open>Download\<close>, called directly or by \<^verbatim>\<open>Update\<close>.
\<close>

theorem NeedsUpdate_frame:
  "files (snd (NeedsUpdate url p w)) = files w
   \<and> (snd (fst (NeedsUpdate url p w)) \<noteq> None \<or> \<not> fst (fst (NeedsUpdate url p w)) \<longrightarrow>
        files (snd (Update url p read w)) = files w)
   \<and> files (snd (LoadLocal p read w)) = files w
   \<and> files (snd (LoadRemote url read w)) = files w"
proof -
  obtain evs where n: "snd (NeedsUpdate url p w) = w\<lparr>trace := trace w @ evs\<rparr>"
    using NeedsUpdate_world by blast
  then have a: "files (snd (NeedsUpdate url p w)) = files w" by simp
  have b: "snd (fst (NeedsUpdate url p w)) \<noteq> None \<or> \<not> fst (fst (NeedsUpdate url p w)) \<longrightarrow>
        files (snd (Update url p read w)) = files w"
    using a by (auto simp: Update_def split: prod.splits option.splits)
  have c: "files (snd (LoadLocal p read w)) = files w"
    by (auto simp: LoadLocal_def prims split: prod.splits option.splits sum.splits)
  have d: "files (snd (LoadRemote url read w)) = files w"
    by (auto simp: LoadRemote_def prims split: prod.splits option.splits sum.splits)
  from a b c d show ?thesis by simp
qed

theorem NeedsUpdate_frame_witness:
  "fst (NeedsUpdate testURL testFilename (testWorld testTime (Some [dateBefore]) testFiles))
     = (False, None)
   \<and> files (snd (NeedsUpdate testURL testFilename
        (testWorld testTime (Some [dateBefore]) testFiles))) = testFiles
   \<and> files (snd (Update testURL testFilename readTestdata
        (testWorld testTime (Some [dateBefore]) testFiles))) = testFiles"
proof -
  let ?w = "testWorld testTime (Some [dateBefore]) testFiles"
  have a: "fst (NeedsUpdate testURL testFilename ?w) = (False, None)"
    by (simp add: NeedsUpdate_def prims tests)
  have f: "files ?w = testFiles" by (simp add: testWorld_def)
  from a f NeedsUpdate_frame [of testURL testFilename ?w readTestdata]
  show ?thesis by simp
qed

subsection \<open>An error comes with false\<close>

text \<open>
  C10. Whenever \<^verbatim>\<open>NeedsUpdate\<close> returns an error, the boolean it returns is \<open>false\<close>.
\<close>

theorem NeedsUpdate_error_false:
  "snd (fst (NeedsUpdate url p w)) = Some err \<Longrightarrow> fst (fst (NeedsUpdate url p w)) = False"
  by (auto simp: NeedsUpdate_def prims split: sum.splits option.splits list.splits if_splits)

theorem NeedsUpdate_error_false_witness:
  "snd (fst (NeedsUpdate ''http://127.0.0.1:1/none'' testFilename
        (testWorld testTime (Some [dateAfter]) testFiles)))
     = Some (Fault ''dial tcp: connection refused'')
   \<and> fst (fst (NeedsUpdate ''http://127.0.0.1:1/none'' testFilename
        (testWorld testTime (Some [dateAfter]) testFiles))) = False"
proof -
  have a: "snd (fst (NeedsUpdate ''http://127.0.0.1:1/none'' testFilename
        (testWorld testTime (Some [dateAfter]) testFiles)))
     = Some (Fault ''dial tcp: connection refused'')"
    by (simp add: NeedsUpdate_def prims tests)
  from a NeedsUpdate_error_false [OF a] show ?thesis by simp
qed

subsection \<open>Update called twice\<close>

text \<open>
  What \<^verbatim>\<open>Download\<close> does to the world: it adds events, among them exactly one GET
  request, it changes no field but \<open>files\<close> and \<open>trace\<close>, and when it succeeds the
  destination file carries the time of the clock.
\<close>

lemma Download_trace:
  "\<exists>evs. trace (snd (Download url p read w)) = trace w @ evs
     \<and> getCount evs = 1 \<and> headCount evs = 0"
  by (auto simp: Download_def prims getCount_def headCount_def Let_def
      split: sum.splits option.splits prod.splits if_splits)

lemma Download_rest:
  "snd (Download url p read w) =
     w\<lparr>files := files (snd (Download url p read w)),
       trace := trace (snd (Download url p read w))\<rparr>"
  by (auto simp: Download_def prims Let_def
      split: sum.splits option.splits prod.splits if_splits)

lemma Download_stamp:
  "fst (Download url p read w) = None \<Longrightarrow>
     \<exists>c. files (snd (Download url p read w)) p = Some \<lparr>content = c, modTime = clock w\<rparr>"
  by (auto simp: Download_def prims Let_def
      split: sum.splits option.splits prod.splits if_splits)

lemma Update_true_world:
  assumes "fst (Update url p read w) = (True, None)"
  shows "\<exists>fs evs c. snd (Update url p read w) = w\<lparr>files := fs, trace := trace w @ evs\<rparr>
     \<and> getCount evs = 1 \<and> fs p = Some \<lparr>content = c, modTime = clock w\<rparr>"
proof -
  obtain b e w1 where n: "NeedsUpdate url p w = ((b, e), w1)" by (metis prod.exhaust)
  obtain evs1 where w1: "w1 = w\<lparr>trace := trace w @ evs1\<rparr>" and g1: "getCount evs1 = 0"
    using NeedsUpdate_world [of url p w] n by auto
  let ?w2 = "snd (Download url p read w1)"
  from assms n have u: "Update url p read w = ((True, None), ?w2)"
    and d: "fst (Download url p read w1) = None"
    by (auto simp: Update_def split: option.splits if_splits prod.splits)
  obtain evs2 where t2: "trace ?w2 = trace w1 @ evs2" and g2: "getCount evs2 = 1"
    using Download_trace [of url p read w1] by blast
  obtain c where f: "files ?w2 p = Some \<lparr>content = c, modTime = clock w1\<rparr>"
    using Download_stamp [OF d] by blast
  have "?w2 = w1\<lparr>files := files ?w2, trace := trace w1 @ evs2\<rparr>"
    using Download_rest [of url p read w1] t2 by simp
  then have "snd (Update url p read w) = w\<lparr>files := files ?w2, trace := trace w @ (evs1 @ evs2)\<rparr>"
    using u w1 by simp
  moreover have "getCount (evs1 @ evs2) = 1" using g1 g2 by (simp add: getCount_def)
  moreover have "files ?w2 p = Some \<lparr>content = c, modTime = clock w\<rparr>" using f w1 by simp
  ultimately show ?thesis by blast
qed

text \<open>
  C8, as claimed: two calls of \<^verbatim>\<open>Update\<close> in a row against an unchanged remote resource,
  the first one succeeding, download once, and the second call returns \<open>(false, nil)\<close>.
  This fails when the server's \<^verbatim>\<open>Last-Modified\<close> is later than the time at which the
  download writes the local file (the server's clock is ahead, or the date lies in the
  future): the local file is stamped with the local clock, the remote time is still
  strictly after it, and the second call downloads again and returns \<open>(true, nil)\<close>.
\<close>

theorem Update_twice_counterexample:
  "fst (Update testURL testFilename readTestdata noCopyWorld) = (True, None)
   \<and> getCount (newEvents noCopyWorld afterFirstUpdate) = 1
   \<and> httpHead afterFirstUpdate = httpHead noCopyWorld
   \<and> httpGet afterFirstUpdate = httpGet noCopyWorld
   \<and> fst (Update testURL testFilename readTestdata afterFirstUpdate) = (True, None)
   \<and> getCount (newEvents afterFirstUpdate afterSecondUpdate) = 1"
  by (simp add: afterSecondUpdate_def afterFirstUpdate_def noCopyWorld_def Update_def NeedsUpdate_def
      Download_def prims tests newEvents_def getCount_def)

text \<open>
  C8, amended. When the first call of \<^verbatim>\<open>Update\<close> returns \<open>(true, nil)\<close>, the remote
  modification time \<open>t\<close> is not after the local clock at that call, and the stat of the
  path is not refused, then the first call sends exactly one GET request, and a second
  call on the world it leaves (same server, same \<^verbatim>\<open>Last-Modified\<close>) returns
  \<open>(false, nil)\<close> and sends no GET request.
\<close>

theorem Update_twice:
  assumes "fst (Update url p read w) = (True, None)"
    and "httpHead w url = Inr resp"
    and "header resp httpLastModified = Some (v # vs)"
    and "time_Parse w httpTimeFormat v = Inr t"
    and "t \<le> clock w"
    and "statFault w p = None"
  shows "getCount (newEvents w (snd (Update url p read w))) = 1
       \<and> fst (Update url p read2 (snd (Update url p read w))) = (False, None)
       \<and> getCount (newEvents (snd (Update url p read w))
            (snd (Update url p read2 (snd (Update url p read w))))) = 0"
proof -
  let ?w' = "snd (Update url p read w)"
  obtain fs evs c where w': "?w' = w\<lparr>files := fs, trace := trace w @ evs\<rparr>"
    and g: "getCount evs = 1" and f: "fs p = Some \<lparr>content = c, modTime = clock w\<rparr>"
    using Update_true_world [OF assms(1)] by blast
  have a: "getCount (newEvents w ?w') = 1" using w' g by (simp add: newEvents_def)
  have n: "fst (NeedsUpdate url p ?w') = (False, None)"
    using assms(2-6) f unfolding w' by (simp add: NeedsUpdate_def prims)
  obtain evs2 where n2: "snd (NeedsUpdate url p ?w') = ?w'\<lparr>trace := trace ?w' @ evs2\<rparr>"
    and g2: "getCount evs2 = 0"
    using NeedsUpdate_world [of url p ?w'] by blast
  from n have u: "Update url p read2 ?w' = ((False, None), snd (NeedsUpdate url p ?w'))"
    by (auto simp: Update_def split: prod.splits option.splits)
  have b: "fst (Update url p read2 ?w') = (False, None)" using u by simp
  have c: "getCount (newEvents ?w' (snd (Update url p read2 ?w'))) = 0"
    using u n2 g2 by (simp add: newEvents_def)
  from a b c show ?thesis by simp
qed

theorem Update_twice_witness:
  "fst (Update testURL testFilename readTestdata staleWorld) = (True, None)
   \<and> getCount (newEvents staleWorld
        (snd (Update testURL testFilename readTestdata staleWorld))) = 1
   \<and> fst (Update testURL testFilename readTestdata
        (snd (Update testURL testFilename readTestdata staleWorld))) = (False, None)
   \<and> getCount (newEvents (snd (Update testURL testFilename readTestdata staleWorld))
        (snd (Update testURL testFilename readTestdata
           (snd (Update testURL testFilename readTestdata staleWorld))))) = 0"
proof -
  have a: "fst (Update testURL testFilename readTestdata staleWorld) = (True, None)"
    by (simp add: staleWorld_def Update_def NeedsUpdate_def Download_def prims tests)
  have h: "httpHead staleWorld testURL
      = Inr \<lparr>header = [httpLastModified \<mapsto> [dateAfter]], body = \<lparr>sdata = [], serr = None\<rparr>\<rparr>"
    by (simp add: staleWorld_def tests)
  have p: "time_Parse staleWorld httpTimeFormat dateAfter = Inr (testTime + 600000000000)"
    by (simp add: staleWorld_def tests)
  have c: "testTime + 600000000000 \<le> clock staleWorld"
    by (simp add: staleWorld_def tests)
  have s: "statFault staleWorld testFilename = None"
    by (simp add: staleWorld_def tests)
  from a Update_twice [OF a h _ p c s, of "[]" readTestdata] show ?thesis by simp
qed

subsection \<open>Which errors are wrapped\<close>

text \<open>
  The errors each function can return, where they come from, and the requests each
  function sends.
\<close>

lemma Download_errors:
  "fst (Download url p read w) = Some e \<Longrightarrow>
     (\<exists>cause. httpGet w url = Inl cause \<and> e = fmt_Errorf ''failed to download resource'' cause)
   \<or> (\<exists>cause. createFault w p = Some cause \<and> e = fmt_Errorf ''failed to open local file'' cause)
   \<or> (\<exists>resp cause. httpGet w url = Inr resp \<and> fst (io_Copy p (body resp) w) = Some cause
        \<and> e = fmt_Errorf ''failed to store resource locally'' cause)"
  by (auto simp: Download_def prims Let_def
      split: sum.splits option.splits prod.splits if_splits)

lemma NeedsUpdate_errors:
  "snd (fst (NeedsUpdate url p w)) = Some e \<Longrightarrow>
     e = Errorf ''response does not contain a Last-Modified header''
   \<or> e = Errorf ''Last-Modified header is empty''
   \<or> (\<exists>cause. e = fmt_Errorf ''cannot parse Last-Modified header'' cause)
   \<or> httpHead w url = Inl e
   \<or> fst (os_Stat p w) = Inl e"
  by (auto simp: NeedsUpdate_def prims split: sum.splits option.splits list.splits if_splits)

lemma LoadLocal_errors:
  "snd (fst (LoadLocal p read w)) = Some e \<Longrightarrow>
     fst (os_Open p w) = Inl e
   \<or> (\<exists>inp. fst (os_Open p w) = Inr inp \<and> snd (read inp) = Some e)"
  by (auto simp: LoadLocal_def split: sum.splits option.splits prod.splits)

lemma LoadRemote_errors:
  "snd (fst (LoadRemote url read w)) = Some e \<Longrightarrow>
     httpGet w url = Inl e
   \<or> (\<exists>resp. httpGet w url = Inr resp \<and> snd (read (body resp)) = Some e)"
  by (auto simp: LoadRemote_def http_Get_def split: sum.splits option.splits prod.splits)

lemma Update_errors:
  "snd (fst (Update url p read w)) = Some e \<Longrightarrow>
     snd (fst (NeedsUpdate url p w)) = Some e
   \<or> fst (Download url p read (snd (NeedsUpdate url p w))) = Some e"
  by (auto simp: Update_def split: option.splits prod.splits if_splits)

lemma Download_surfaces:
  "(httpGet w url = Inl c \<longrightarrow>
      fst (Download url p read w) = Some (fmt_Errorf ''failed to download resource'' c))
 \<and> (httpGet w url = Inr resp \<and> createFault w p = Some c \<longrightarrow>
      fst (Download url p read w) = Some (fmt_Errorf ''failed to open local file'' c))
 \<and> (httpGet w url = Inr resp \<and> createFault w p = None
       \<and> fst (io_Copy p (body resp) w) = Some c \<longrightarrow>
      fst (Download url p read w) = Some (fmt_Errorf ''failed to store resource locally'' c))"
  by (auto simp: Download_def prims Let_def
      split: sum.splits option.splits prod.splits if_splits)

lemma NeedsUpdate_surfaces:
  "(httpHead w url = Inl c \<longrightarrow> fst (NeedsUpdate url p w) = (False, Some c))
 \<and> (httpHead w url = Inr resp \<and> header resp httpLastModified = Some (v # vs)
       \<and> time_Parse w httpTimeFormat v = Inl c \<longrightarrow>
      fst (NeedsUpdate url p w)
        = (False, Some (fmt_Errorf ''cannot parse Last-Modified header'' c)))"
  by (auto simp: NeedsUpdate_def prims split: sum.splits option.splits list.splits if_splits)

lemma NeedsUpdate_stat_surfaces:
  "httpHead w url = Inr resp \<and> header resp httpLastModified = Some (v # vs)
     \<and> time_Parse w httpTimeFormat v = Inr t \<and> fst (os_Stat p w) = Inl c \<longrightarrow>
   fst (NeedsUpdate url p w) = (if os_IsNotExist c then (True, None) else (False, Some c))"
  by (auto simp: NeedsUpdate_def prims split: option.splits)

lemma Load_surfaces:
  "(fst (os_Open p w) = Inl c \<longrightarrow> fst (LoadLocal p read w) = (None, Some c))
 \<and> (httpGet w url = Inl c \<longrightarrow> fst (LoadRemote url read w) = (None, Some c))"
  by (auto simp: LoadLocal_def LoadRemote_def http_Get_def split: sum.splits option.splits prod.splits)

lemma Update_surfaces:
  "(snd (fst (NeedsUpdate url p w)) = Some c \<longrightarrow> fst (Update url p read w) = (False, Some c))
 \<and> (fst (NeedsUpdate url p w) = (True, None)
       \<and> fst (Download url p read (snd (NeedsUpdate url p w))) = Some c \<longrightarrow>
      fst (Update url p read w) = (True, Some c))"
  by (auto simp: Update_def split: option.splits prod.splits if_splits)

lemma Update_head_surfaces:
  "httpHead w url = Inl c \<longrightarrow> fst (Update url p read w) = (False, Some c)"
  by (auto simp: Update_def NeedsUpdate_def prims split: option.splits prod.splits)

lemma LoadLocal_trace:
  "newEvents w (snd (LoadLocal p read w)) = [EvOpen p]"
  by (auto simp: LoadLocal_def prims newEvents_def split: sum.splits option.splits prod.splits)

lemma LoadRemote_trace:
  "newEvents w (snd (LoadRemote url read w)) = [EvGet url]"
  by (auto simp: LoadRemote_def prims newEvents_def split: sum.splits option.splits prod.splits)

lemma Download_requests:
  "getCount (newEvents w (snd (Download url p read w))) = 1
   \<and> headCount (newEvents w (snd (Download url p read w))) = 0"
  using Download_trace [of url p read w] by (auto simp: newEvents_def)

lemma NeedsUpdate_requests:
  "getCount (newEvents w (snd (NeedsUpdate url p w))) = 0
   \<and> headCount (newEvents w (snd (NeedsUpdate url p w))) = 1"
  using NeedsUpdate_world [of url p w] by (auto simp: newEvents_def)

lemma Update_requests:
  "getCount (newEvents w (snd (Update url p read w))) \<le> 1
   \<and> headCount (newEvents w (snd (Update url p read w))) = 1"
proof -
  let ?w1 = "snd (NeedsUpdate url p w)"
  obtain evs1 where w1: "?w1 = w\<lparr>trace := trace w @ evs1\<rparr>"
    and g1: "getCount evs1 = 0" and h1: "headCount evs1 = 1"
    using NeedsUpdate_world [of url p w] by blast
  obtain evs2 where t2: "trace (snd (Download url p read ?w1)) = trace ?w1 @ evs2"
    and g2: "getCount evs2 = 1" and h2: "headCount evs2 = 0"
    using Download_trace [of url p read ?w1] by blast
  have t1: "trace ?w1 = trace w @ evs1" by (subst w1) simp
  have "snd (Update url p read w) = ?w1 \<or> snd (Update url p read w) = snd (Download url p read ?w1)"
    by (auto simp: Update_def split: option.splits prod.splits if_splits)
  then show ?thesis
  proof
    assume "snd (Update url p read w) = ?w1"
    then show ?thesis using t1 g1 h1 by (simp add: newEvents_def)
  next
    assume "snd (Update url p read w) = snd (Download url p read ?w1)"
    then show ?thesis using t1 t2 g1 h1 g2 h2
      by (simp add: newEvents_def getCount_def headCount_def)
  qed
qed

text \<open>
  C9, as claimed: every error that one of the five functions returns carries a
  description of the failed phase on top of its cause, and no error is recovered or
  retried. This fails: \<^verbatim>\<open>LoadLocal\<close> returns the error of \<^verbatim>\<open>os.Open\<close> as it is, and
  \<^verbatim>\<open>NeedsUpdate\<close> and \<^verbatim>\<open>Update\<close> return the error of the HEAD request as it is, with
  nothing added; and the not-exist error of \<^verbatim>\<open>os.Stat\<close> is not returned but answered
  with \<open>(true, nil)\<close>.
\<close>

theorem error_policy_counterexample:
  "fst (os_Open testFilename noCopyWorld)
     = Inl (NotExist ''open /tmp/localcopy/test.txt: no such file or directory'')
   \<and> fst (LoadLocal testFilename readTestdata noCopyWorld)
     = (None, Some (NotExist ''open /tmp/localcopy/test.txt: no such file or directory''))
   \<and> httpHead noCopyWorld deadURL = Inl (Fault ''dial tcp: connection refused'')
   \<and> fst (NeedsUpdate deadURL testFilename noCopyWorld)
     = (False, Some (Fault ''dial tcp: connection refused''))
   \<and> fst (Update deadURL testFilename readTestdata noCopyWorld)
     = (False, Some (Fault ''dial tcp: connection refused''))
   \<and> fst (os_Stat testFilename noCopyWorld)
     = Inl (NotExist ''stat /tmp/localcopy/test.txt: no such file or directory'')
   \<and> fst (NeedsUpdate testURL testFilename noCopyWorld) = (True, None)"
  by (simp add: noCopyWorld_def deadURL_def LoadLocal_def NeedsUpdate_def Update_def prims
      tests)

text \<open>
  C9, amended. Every error that \<^verbatim>\<open>Download\<close> returns is the description of the failed
  phase followed by the message of the cause, and so is the date-parse error of
  \<^verbatim>\<open>NeedsUpdate\<close>; the missing-header and empty-header errors of \<^verbatim>\<open>NeedsUpdate\<close> are
  descriptions of their own. Every other error is returned as the failing step produced
  it, with nothing added: by \<^verbatim>\<open>LoadLocal\<close> the error of open or of the parsing function,
  by \<^verbatim>\<open>LoadRemote\<close> the error of GET or of the parsing function, by \<^verbatim>\<open>NeedsUpdate\<close> the
  error of HEAD or of stat, by \<^verbatim>\<open>Update\<close> the error of \<^verbatim>\<open>NeedsUpdate\<close> or of
  \<^verbatim>\<open>Download\<close>. A failure of GET, HEAD, open, create, copy or date parsing always ends
  the function that made the call with an error, and so does a failure of stat unless
  \<^verbatim>\<open>os.IsNotExist\<close> accepts it, which is answered with \<open>(true, nil)\<close>; \<^verbatim>\<open>Update\<close> ends
  with an error whenever \<^verbatim>\<open>NeedsUpdate\<close> or the \<^verbatim>\<open>Download\<close> it runs does. The error of
  the directory creation is discarded: it is never among the errors \<^verbatim>\<open>Download\<close>
  returns. Nothing is retried: \<^verbatim>\<open>Download\<close> and \<^verbatim>\<open>LoadRemote\<close> send one GET request,
  \<^verbatim>\<open>NeedsUpdate\<close> one HEAD request, \<^verbatim>\<open>Update\<close> one HEAD and at most one GET request,
  \<^verbatim>\<open>LoadLocal\<close> opens the file once.
\<close>

theorem error_policy:
  "(fst (Download url p read w) = Some e \<longrightarrow>
      (\<exists>cause. httpGet w url = Inl cause
                \<and> e = fmt_Errorf ''failed to download resource'' cause)
    \<or> (\<exists>cause. createFault w p = Some cause
                \<and> e = fmt_Errorf ''failed to open local file'' cause)
    \<or> (\<exists>resp cause. httpGet w url = Inr resp
                \<and> fst (io_Copy p (body resp) w) = Some cause
                \<and> e = fmt_Errorf ''failed to store resource locally'' cause))
 \<and> (snd (fst (NeedsUpdate url p w)) = Some e \<longrightarrow>
      e = Errorf ''response does not contain a Last-Modified header''
    \<or> e = Errorf ''Last-Modified header is empty''
    \<or> (\<exists>cause. e = fmt_Errorf ''cannot parse Last-Modified header'' cause)
    \<or> httpHead w url = Inl e
    \<or> fst (os_Stat p w) = Inl e)
 \<and> (snd (fst (LoadLocal p read w)) = Some e \<longrightarrow>
      fst (os_Open p w) = Inl e
    \<or> (\<exists>inp. fst (os_Open p w) = Inr inp \<and> snd (read inp) = Some e))
 \<and> (snd (fst (LoadRemote url read w)) = Some e \<longrightarrow>
      httpGet w url = Inl e
    \<or> (\<exists>resp. httpGet w url = Inr resp \<and> snd (read (body resp)) = Some e))
 \<and> (snd (fst (Update url p read w)) = Some e \<longrightarrow>
      snd (fst (NeedsUpdate url p w)) = Some e
    \<or> fst (Download url p read (snd (NeedsUpdate url p w))) = Some e)
 \<and> (httpGet w url = Inl c \<longrightarrow>
      fst (Download url p read w) = Some (fmt_Errorf ''failed to download resource'' c)
    \<and> fst (LoadRemote url read w) = (None, Some c))
 \<and> (httpGet w url = Inr resp \<and> createFault w p = Some c \<longrightarrow>
      fst (Download url p read w) = Some (fmt_Errorf ''failed to open local file'' c))
 \<and> (httpGet w url = Inr resp \<and> createFault w p = None
       \<and> fst (io_Copy p (body resp) w) = Some c \<longrightarrow>
      fst (Download url p read w) = Some (fmt_Errorf ''failed to store resource locally'' c))
 \<and> (httpHead w url = Inl c \<longrightarrow> fst (NeedsUpdate url p w) = (False, Some c))
 \<and> (httpHead w url = Inr resp \<and> header resp httpLastModified = Some (v # vs)
       \<and> time_Parse w httpTimeFormat v = Inl c \<longrightarrow>
      fst (NeedsUpdate url p w)
        = (False, Some (fmt_Errorf ''cannot parse Last-Modified header'' c)))
 \<and> (httpHead w url = Inr resp \<and> header resp httpLastModified = Some (v # vs)
       \<and> time_Parse w httpTimeFormat v = Inr t \<and> fst (os_Stat p w) = Inl c \<longrightarrow>
      fst (NeedsUpdate url p w)
        = (if os_IsNotExist c then (True, None) else (False, Some c)))
 \<and> (fst (os_Open p w) = Inl c \<longrightarrow> fst (LoadLocal p read w) = (None, Some c))
 \<and> (httpHead w url = Inl c \<longrightarrow> fst (Update url p read w) = (False, Some c))
 \<and> (snd (fst (NeedsUpdate url p w)) = Some c \<longrightarrow>
      fst (Update url p read w) = (False, Some c))
 \<and> (fst (NeedsUpdate url p w) = (True, None)
       \<and> fst (Download url p read (snd (NeedsUpdate url p w))) = Some c \<longrightarrow>
      fst (Update url p read w) = (True, Some c))
 \<and> getCount (newEvents w (snd (Download url p read w))) = 1
 \<and> headCount (newEvents w (snd (Download url p read w))) = 0
 \<and> getCount (newEvents w (snd (NeedsUpdate url p w))) = 0
 \<and> headCount (newEvents w (snd (NeedsUpdate url p w))) = 1
 \<and> getCount (newEvents w (snd (Update url p read w))) \<le> 1
 \<and> headCount (newEvents w (snd (Update url p read w))) = 1
 \<and> newEvents w (snd (LoadLocal p read w)) = [EvOpen p]
 \<and> newEvents w (snd (LoadRemote url read w)) = [EvGet url]"
  apply (intro conjI impI)
  subgoal by (rule Download_errors)
  subgoal by (rule NeedsUpdate_errors)
  subgoal by (rule LoadLocal_errors)
  subgoal by (rule LoadRemote_errors)
  subgoal by (rule Update_errors)
  subgoal using Download_surfaces by blast
  subgoal using Load_surfaces by blast
  subgoal using Download_surfaces by blast
  subgoal using Download_surfaces by blast
  subgoal using NeedsUpdate_surfaces by blast
  subgoal using NeedsUpdate_surfaces by blast
  subgoal using NeedsUpdate_stat_surfaces by blast
  subgoal using Load_surfaces by blast
  subgoal using Update_head_surfaces by blast
  subgoal using Update_surfaces by blast
  subgoal using Update_surfaces by blast
  subgoal using Download_requests by blast
  subgoal using Download_requests by blast
  subgoal using NeedsUpdate_requests by blast
  subgoal using NeedsUpdate_requests by blast
  subgoal using Update_requests by blast
  subgoal using Update_requests by blast
  subgoal by (rule LoadLocal_trace)
  subgoal by (rule LoadRemote_trace)
  done

theorem error_policy_witness:
  "httpGet noCopyWorld deadURL = Inl (Fault ''dial tcp: connection refused'')
   \<and> fst (Download deadURL testFilename readTestdata noCopyWorld)
     = Some (Errorf ''failed to download resource: dial tcp: connection refused'')
   \<and> fst (LoadRemote deadURL readTestdata noCopyWorld)
     = (None, Some (Fault ''dial tcp: connection refused''))
   \<and> httpHead noCopyWorld deadURL = Inl (Fault ''dial tcp: connection refused'')
   \<and> fst (Update deadURL testFilename readTestdata noCopyWorld)
     = (False, Some (Fault ''dial tcp: connection refused''))
   \<and> getCount (newEvents noCopyWorld
        (snd (Download deadURL testFilename readTestdata noCopyWorld))) = 1"
proof -
  let ?c = "Fault ''dial tcp: connection refused''"
  have h: "httpGet noCopyWorld deadURL = Inl ?c"
    by (simp add: noCopyWorld_def deadURL_def tests)
  have h2: "httpHead noCopyWorld deadURL = Inl ?c"
    by (simp add: noCopyWorld_def deadURL_def tests)
  from h h2 error_policy [where url = deadURL and p = testFilename and read = readTestdata
      and w = noCopyWorld and c = ?c and e = ?c and v = dateAfter and vs = "[]" and t = 0
      and resp = "\<lparr>header = Map.empty, body = \<lparr>sdata = [], serr = None\<rparr>\<rparr>"]
  show ?thesis by (simp add: fmt_Errorf_def)
qed

end
